theory Spec2Isabelle
  imports Complex_Main
begin

section \<open>Python values\<close>

text \<open>
  The widget computes with Python numbers: \<open>int\<close> for clip frames, \<open>float\<close> for pixel
  positions, zoom factors and the frames derived from them. Both are modelled by exact
  arithmetic: \<open>int\<close> where the source only ever holds integers, \<open>real\<close> where a float may
  appear. Rounding error, infinities and NaN of IEEE floats are outside this model.
\<close>

datatype error = ZeroDivisionError | ValueError | AttributeError | KeyError

text \<open>Python 3 \<open>round(x)\<close> with one argument: to the nearest integer, halves to the even one.\<close>

definition py_round :: "real \<Rightarrow> int" where
  "py_round q =
     (let f = \<lfloor>q\<rfloor>; d = q - of_int f
      in if d < 1 / 2 then f
         else if 1 / 2 < d then f + 1
         else if even f then f else f + 1)"

text \<open>True division \<open>a / b\<close>: raises \<open>ZeroDivisionError\<close> when the divisor is zero.\<close>

definition py_div :: "real \<Rightarrow> real \<Rightarrow> error + real" where
  "py_div a b = (if b = 0 then Inl ZeroDivisionError else Inr (a / b))"

text \<open>
  \<open>min(xs, key=k)\<close>: the first element with the least key; \<open>ValueError\<close> on an empty
  sequence. \<open>min_from\<close> is the scan with the best element so far.
\<close>

fun min_from :: "('a \<Rightarrow> int) \<Rightarrow> 'a \<Rightarrow> 'a list \<Rightarrow> 'a" where
  "min_from key best [] = best"
| "min_from key best (c # cs) = min_from key (if key c < key best then c else best) cs"

fun py_min :: "('a \<Rightarrow> int) \<Rightarrow> 'a list \<Rightarrow> error + 'a" where
  "py_min key [] = Inl ValueError"
| "py_min key (c # cs) = Inr (min_from key c cs)"

section \<open>Themes\<close>

datatype pyval = Str string | Num real

type_synonym pydict = "string \<rightharpoonup> pyval"

definition DEFAULT_CONSTANTS :: pydict where
  "DEFAULT_CONSTANTS = map_of
     [(''LEFT_MARGIN'', Num 150),
      (''TOP_MARGIN'', Num 30),
      (''BOTTOM_MARGIN'', Num 20),
      (''TRACK_SPACING'', Num 2),
      (''BASE_PIXELS_PER_FRAME'', Num 10),
      (''DEFAULT_TRACK_HEIGHT'', Num 60)]"

definition dark_theme :: pydict where
  "dark_theme = map_of
     [(''timeLabel_bg'', Str ''#141414''),
      (''timeLabel_text'', Str ''#FFFFFF''),
      (''ruler_bg'', Str ''#1E1E1E''),
      (''ruler_tick_major'', Str ''#FFFFFF''),
      (''ruler_tick_minor'', Str ''#808080''),
      (''playhead_color'', Str ''#FFA500''),
      (''track_header_bg'', Str ''#282828''),
      (''track_header_text'', Str ''#FFFFFF''),
      (''track_lane_bg1'', Str ''#323232''),
      (''track_lane_bg2'', Str ''#3E3E3E''),
      (''track_lane_border'', Str ''#505050''),
      (''clip_fill'', Str ''#6496C8''),
      (''clip_fill_selected'', Str ''#96C8FF''),
      (''clip_border'', Str ''#000000''),
      (''end_line_color'', Str ''#C83232''),
      (''background_color'', Str ''#111111'')]"

definition light_theme :: pydict where
  "light_theme = map_of
     [(''timeLabel_bg'', Str ''#F0F0F0''),
      (''timeLabel_text'', Str ''#000000''),
      (''ruler_bg'', Str ''#E0E0E0''),
      (''ruler_tick_major'', Str ''#000000''),
      (''ruler_tick_minor'', Str ''#808080''),
      (''playhead_color'', Str ''#FF8C00''),
      (''track_header_bg'', Str ''#D0D0D0''),
      (''track_header_text'', Str ''#000000''),
      (''track_lane_bg1'', Str ''#E8E8E8''),
      (''track_lane_bg2'', Str ''#F0F0F0''),
      (''track_lane_border'', Str ''#A0A0A0''),
      (''clip_fill'', Str ''#90CAF9''),
      (''clip_fill_selected'', Str ''#64B5F6''),
      (''clip_border'', Str ''#000000''),
      (''end_line_color'', Str ''#E53935''),
      (''background_color'', Str ''#FFFFFF'')]"

definition THEMES :: "string \<rightharpoonup> pydict" where
  "THEMES = map_of [(''dark'', dark_theme), (''light'', light_theme)]"

text \<open>
  The argument of \<open>get_theme\<close>: \<open>None\<close>, a string, a dict, or a value of any other type
  (which the function treats as it treats \<open>None\<close>).
\<close>

datatype config = CNone | CStr string | CDict pydict | COther

text \<open>\<open>d.update(e)\<close>: the keys of \<open>e\<close> replace those of \<open>d\<close>.\<close>

definition dict_update :: "pydict \<Rightarrow> pydict \<Rightarrow> pydict" where
  "dict_update d e = d ++ e"

definition get_theme :: "config \<Rightarrow> error + pydict" where
  "get_theme cfg =
     (case THEMES ''dark'' of
        None \<Rightarrow> Inl AttributeError
      | Some dark \<Rightarrow>
          (case (case cfg of
                   CStr s \<Rightarrow> (case THEMES s of Some t \<Rightarrow> Inr t | None \<Rightarrow> Inr dark)
                 | CDict d \<Rightarrow>
                     (case THEMES ''dark'' of
                        None \<Rightarrow> Inl KeyError
                      | Some t \<Rightarrow> Inr (dict_update t d))
                 | _ \<Rightarrow> Inr dark) of
             Inl e \<Rightarrow> Inl e
           | Inr theme \<Rightarrow> Inr (dict_update DEFAULT_CONSTANTS theme)))"

section \<open>Data classes\<close>

record ClipData =
  title :: string
  start_frame :: int
  duration_frames :: int

record TrackData =
  name :: string
  height :: real
  clips :: "ClipData list"

definition add_clip :: "TrackData \<Rightarrow> ClipData \<Rightarrow> TrackData" where
  "add_clip track clip = track\<lparr>clips := clips track @ [clip]\<rparr>"

section \<open>Frames and pixels\<close>

text \<open>
  The two conversions are written out at every use in the source (for the playhead in
  \<open>TimelineView.updateLayout\<close> and \<open>PlayheadLineItem.updatePlayhead\<close>); here each is one
  function of the left margin, the pixels per frame and the horizontal zoom.
\<close>

definition frameToX :: "real \<Rightarrow> real \<Rightarrow> real \<Rightarrow> real \<Rightarrow> real" where
  "frameToX left_margin base frm z = left_margin + frm * base * z"

definition xToFrame :: "real \<Rightarrow> real \<Rightarrow> real \<Rightarrow> real \<Rightarrow> error + real" where
  "xToFrame left_margin base x z = py_div (x - left_margin) (base * z)"

section \<open>The timeline view\<close>

text \<open>
  The state of a \<open>TimelineView\<close>: the layout constants read from the theme, the zoom
  factors, the playhead and end frames, the tracks, the frame held by the time label, and
  the positions the layout gives to the scene, the playhead items and the end line.
  Painting and the scene's item lists are not modelled.
\<close>

record TimelineView =
  LEFT_MARGIN :: real
  TOP_MARGIN :: real
  BOTTOM_MARGIN :: real
  TRACK_SPACING :: real
  BASE_PIXELS_PER_FRAME :: real
  h_zoom :: real
  v_zoom :: real
  playhead_frame :: real
  end_frame :: real
  bottom_frame_offset :: real
  tracks :: "TrackData list"
  timeLabel_frame :: int
  scene_height :: real
  playhead_x :: real
  endLine_x :: real

fun clips_max_end :: "int \<Rightarrow> ClipData list \<Rightarrow> int" where
  "clips_max_end max_end [] = max_end"
| "clips_max_end max_end (clip # rest) =
     (let e = start_frame clip + duration_frames clip
      in clips_max_end (if e > max_end then e else max_end) rest)"

fun tracks_max_end :: "int \<Rightarrow> TrackData list \<Rightarrow> int" where
  "tracks_max_end max_end [] = max_end"
| "tracks_max_end max_end (track # rest) =
     tracks_max_end (clips_max_end max_end (clips track)) rest"

definition minimum_end_frame :: "TimelineView \<Rightarrow> int" where
  "minimum_end_frame v = tracks_max_end 0 (tracks v)"

fun stack_tracks :: "real \<Rightarrow> real \<Rightarrow> real \<Rightarrow> TrackData list \<Rightarrow> real" where
  "stack_tracks vz spacing y [] = y"
| "stack_tracks vz spacing y (track # rest) =
     stack_tracks vz spacing (y + (height track * vz + spacing)) rest"

definition updateLayout :: "TimelineView \<Rightarrow> TimelineView" where
  "updateLayout v =
     (let y = stack_tracks (v_zoom v) (TRACK_SPACING v) (TOP_MARGIN v) (tracks v);
          ph_x = frameToX (LEFT_MARGIN v) (BASE_PIXELS_PER_FRAME v) (playhead_frame v) (h_zoom v);
          min_end = minimum_end_frame v;
          new_end = real_of_int (max (min_end + 24) 100);
          end_x = frameToX (LEFT_MARGIN v) (BASE_PIXELS_PER_FRAME v) new_end (h_zoom v)
      in v\<lparr>scene_height := y + bottom_frame_offset v,
           playhead_x := ph_x,
           end_frame := new_end,
           endLine_x := end_x\<rparr>)"

definition addTrack :: "TimelineView \<Rightarrow> TrackData \<Rightarrow> TimelineView" where
  "addTrack v track = updateLayout (v\<lparr>tracks := tracks v @ [track]\<rparr>)"

definition setHZoom :: "TimelineView \<Rightarrow> real \<Rightarrow> TimelineView" where
  "setHZoom v val = updateLayout (v\<lparr>h_zoom := 1 / 2 + (val / 100) * (7 / 2)\<rparr>)"

definition setVZoom :: "TimelineView \<Rightarrow> real \<Rightarrow> TimelineView" where
  "setVZoom v val = updateLayout (v\<lparr>v_zoom := 1 / 2 + (val / 100) * (3 / 2)\<rparr>)"

text \<open>\<open>TimeLabelItem.updateTime\<close> keeps \<open>int(round(frame))\<close> for the time code it paints.\<close>

definition updateTime :: "TimelineView \<Rightarrow> real \<Rightarrow> TimelineView" where
  "updateTime v frm = v\<lparr>timeLabel_frame := py_round frm\<rparr>"

definition updateFromPlayhead :: "TimelineView \<Rightarrow> real \<Rightarrow> TimelineView" where
  "updateFromPlayhead v new_frame =
     (let v1 = v\<lparr>playhead_frame := real_of_int (py_round new_frame)\<rparr>
      in updateLayout (updateTime v1 (playhead_frame v1)))"

definition setPlayheadFrame :: "TimelineView \<Rightarrow> real \<Rightarrow> TimelineView" where
  "setPlayheadFrame v frm =
     (let v1 = v\<lparr>playhead_frame := frm\<rparr>
      in updateLayout (updateTime v1 (playhead_frame v1)))"

definition setEndFrame :: "TimelineView \<Rightarrow> real \<Rightarrow> TimelineView" where
  "setEndFrame v frm =
     (let min_end = real_of_int (minimum_end_frame v);
          frm1 = (if frm < min_end then min_end else frm)
      in updateLayout (v\<lparr>end_frame := frm1\<rparr>))"

definition playbackStep :: "TimelineView \<Rightarrow> TimelineView" where
  "playbackStep v =
     (let v1 = v\<lparr>playhead_frame := playhead_frame v + 1\<rparr>;
          v2 = (if playhead_frame v1 \<ge> end_frame v1 then v1\<lparr>playhead_frame := 0\<rparr> else v1)
      in updateFromPlayhead v2 (playhead_frame v2))"

definition resizeEvent :: "TimelineView \<Rightarrow> TimelineView" where
  "resizeEvent v = updateLayout v"

text \<open>
  \<open>TimelineView.__init__\<close>, given the five layout constants it reads from the theme (as
  numbers): zoom 1.0, playhead and end frame 0, no tracks, every item at the origin, and
  then a first layout.
\<close>

definition TimelineView_init :: "real \<Rightarrow> real \<Rightarrow> real \<Rightarrow> real \<Rightarrow> real \<Rightarrow> TimelineView" where
  "TimelineView_init left_margin top_margin bottom_margin spacing base =
     updateLayout
       \<lparr>LEFT_MARGIN = left_margin, TOP_MARGIN = top_margin, BOTTOM_MARGIN = bottom_margin,
        TRACK_SPACING = spacing, BASE_PIXELS_PER_FRAME = base,
        h_zoom = 1, v_zoom = 1, playhead_frame = 0, end_frame = 0,
        bottom_frame_offset = bottom_margin, tracks = [],
        timeLabel_frame = 0, scene_height = 0, playhead_x = 0, endLine_x = 0\<rparr>"

text \<open>
  \<open>updatePlayhead\<close> of the playhead line and of the playhead triangle, and
  \<open>updateEndFrame\<close> of the end line: the item's current x position is turned into a frame
  and handed to the view.
\<close>

definition updatePlayhead :: "TimelineView \<Rightarrow> real \<Rightarrow> error + TimelineView" where
  "updatePlayhead v pos_x =
     (case xToFrame (LEFT_MARGIN v) (BASE_PIXELS_PER_FRAME v) pos_x (h_zoom v) of
        Inl e \<Rightarrow> Inl e
      | Inr new_frame \<Rightarrow> Inr (setPlayheadFrame v new_frame))"

definition updateEndFrame :: "TimelineView \<Rightarrow> real \<Rightarrow> error + TimelineView" where
  "updateEndFrame v pos_x =
     (case xToFrame (LEFT_MARGIN v) (BASE_PIXELS_PER_FRAME v) pos_x (h_zoom v) of
        Inl e \<Rightarrow> Inl e
      | Inr new_frame \<Rightarrow> Inr (setEndFrame v new_frame))"

section \<open>Releasing a dragged clip\<close>

text \<open>
  \<open>ClipItem.mouseReleaseEvent\<close>. The dragged clip is one of the clips of its track; it is
  named by its position \<open>self\<close> in the track's list, and \<open>other is self.clip_data\<close> is the
  test \<open>j = self\<close> on the position \<open>j\<close> of \<open>other\<close>.
\<close>

definition SNAP_TOLERANCE :: int where
  "SNAP_TOLERANCE = 1"

text \<open>The frame under the released item, \<open>original_candidate\<close>.\<close>

definition raw_frame :: "real \<Rightarrow> real \<Rightarrow> real \<Rightarrow> real \<Rightarrow> error + int" where
  "raw_frame left_margin base z pos_x =
     (case xToFrame left_margin base pos_x z of
        Inl e \<Rightarrow> Inl e
      | Inr q \<Rightarrow> Inr (py_round q))"

text \<open>The first loop: the snapping candidates appended after \<open>original_candidate\<close>.\<close>

fun snap_options :: "int \<Rightarrow> int \<Rightarrow> nat \<Rightarrow> nat \<Rightarrow> ClipData list \<Rightarrow> int list" where
  "snap_options original dur self j [] = []"
| "snap_options original dur self j (other # rest) =
     (if j = self then snap_options original dur self (Suc j) rest
      else
        (let other_end = start_frame other + duration_frames other
         in (if \<bar>original - other_end\<bar> \<le> SNAP_TOLERANCE then [other_end] else [])
            @ (if \<bar>original + dur - start_frame other\<bar> \<le> SNAP_TOLERANCE
               then [start_frame other - dur] else [])
            @ snap_options original dur self (Suc j) rest))"

definition candidate_options :: "int \<Rightarrow> int \<Rightarrow> nat \<Rightarrow> ClipData list \<Rightarrow> int list" where
  "candidate_options original dur self cs = original # snap_options original dur self 0 cs"

definition chosen_candidate :: "int \<Rightarrow> int \<Rightarrow> nat \<Rightarrow> ClipData list \<Rightarrow> error + int" where
  "chosen_candidate original dur self cs =
     py_min (\<lambda>c. \<bar>c - original\<bar>) (candidate_options original dur self cs)"

text \<open>
  The second loop: at the first other clip that the candidate would overlap, the
  candidate becomes \<open>original_candidate\<close> and the loop ends.
\<close>

fun overlap_check :: "int \<Rightarrow> int \<Rightarrow> int \<Rightarrow> nat \<Rightarrow> nat \<Rightarrow> ClipData list \<Rightarrow> int" where
  "overlap_check candidate original dur self j [] = candidate"
| "overlap_check candidate original dur self j (other # rest) =
     (if j = self then overlap_check candidate original dur self (Suc j) rest
      else if candidate < start_frame other + duration_frames other
              \<and> candidate + dur > start_frame other
      then original
      else overlap_check candidate original dur self (Suc j) rest)"

text \<open>The frame the release stores in \<open>clip_data.start_frame\<close>.\<close>

definition resolve_frame ::
  "real \<Rightarrow> real \<Rightarrow> real \<Rightarrow> real \<Rightarrow> int \<Rightarrow> nat \<Rightarrow> ClipData list \<Rightarrow> error + int" where
  "resolve_frame left_margin base z pos_x dur self cs =
     (case raw_frame left_margin base z pos_x of
        Inl e \<Rightarrow> Inl e
      | Inr original \<Rightarrow>
          (case chosen_candidate original dur self cs of
             Inl e \<Rightarrow> Inl e
           | Inr candidate \<Rightarrow>
               Inr (max 0 (overlap_check candidate original dur self 0 cs))))"

text \<open>
  The release of the item of clip \<open>ci\<close> of track \<open>ti\<close> at x position \<open>pos_x\<close>. An item exists
  only for a clip of a track of the view, so a pair \<open>(ti, ci)\<close> that names no clip names no
  item, and the view stays as it is. An exception leaves the clip untouched: the only one
  is raised before the assignment.
\<close>

definition mouseReleaseEvent ::
  "TimelineView \<Rightarrow> nat \<Rightarrow> nat \<Rightarrow> real \<Rightarrow> error + TimelineView" where
  "mouseReleaseEvent v ti ci pos_x =
     (if ti < length (tracks v) \<and> ci < length (clips (tracks v ! ti)) then
        (let track = tracks v ! ti; clip = clips track ! ci
         in case resolve_frame (LEFT_MARGIN v) (BASE_PIXELS_PER_FRAME v) (h_zoom v) pos_x
                   (duration_frames clip) ci (clips track) of
              Inl e \<Rightarrow> Inl e
            | Inr frm \<Rightarrow>
                Inr (v\<lparr>tracks := (tracks v)
                       [ti := track\<lparr>clips := (clips track)[ci := clip\<lparr>start_frame := frm\<rparr>]\<rparr>]\<rparr>))
      else Inr v)"

text \<open>The start frame of clip \<open>ci\<close> of track \<open>ti\<close>.\<close>

definition clip_start :: "TimelineView \<Rightarrow> nat \<Rightarrow> nat \<Rightarrow> int" where
  "clip_start v ti ci = start_frame (clips (tracks v ! ti) ! ci)"

text \<open>
  The resolver the release is compared with: round the frame under the item and clamp it
  to be non-negative, looking at no other clip.
\<close>

definition trivial_frame :: "real \<Rightarrow> real \<Rightarrow> real \<Rightarrow> real \<Rightarrow> error + int" where
  "trivial_frame left_margin base z pos_x =
     (case xToFrame left_margin base pos_x z of
        Inl e \<Rightarrow> Inl e
      | Inr q \<Rightarrow> Inr (max 0 (py_round q)))"

text \<open>
  Whether a clip of duration \<open>dur\<close> placed at \<open>candidate\<close> overlaps the interval
  \<open>[start, start + duration)\<close> of a clip of the track other than the one at position \<open>self\<close>
  (\<open>j\<close> is the position of the head of the list).
\<close>

fun overlaps_other :: "int \<Rightarrow> int \<Rightarrow> nat \<Rightarrow> nat \<Rightarrow> ClipData list \<Rightarrow> bool" where
  "overlaps_other candidate dur self j [] = False"
| "overlaps_other candidate dur self j (other # rest) =
     ((j \<noteq> self
       \<and> candidate < start_frame other + duration_frames other
       \<and> start_frame other < candidate + dur)
      \<or> overlaps_other candidate dur self (Suc j) rest)"

section \<open>Operations on a view\<close>

text \<open>
  The operations that change a view or its clips: the public methods of \<open>TimelineView\<close>,
  \<open>TrackData.add_clip\<close> on a track of the view, and the handlers of the three draggable
  kinds of item.
\<close>

datatype operation =
    AddTrack TrackData
  | AddClip nat ClipData
  | SetHZoom real
  | SetVZoom real
  | UpdateFromPlayhead real
  | SetPlayheadFrame real
  | SetEndFrame real
  | PlaybackStep
  | ResizeEvent
  | UpdatePlayhead real
  | UpdateEndFrame real
  | MouseRelease nat nat real

fun perform :: "TimelineView \<Rightarrow> operation \<Rightarrow> error + TimelineView" where
  "perform v (AddTrack track) = Inr (addTrack v track)"
| "perform v (AddClip ti clip) =
     Inr (if ti < length (tracks v)
          then v\<lparr>tracks := (tracks v)[ti := add_clip (tracks v ! ti) clip]\<rparr>
          else v)"
| "perform v (SetHZoom val) = Inr (setHZoom v val)"
| "perform v (SetVZoom val) = Inr (setVZoom v val)"
| "perform v (UpdateFromPlayhead frm) = Inr (updateFromPlayhead v frm)"
| "perform v (SetPlayheadFrame frm) = Inr (setPlayheadFrame v frm)"
| "perform v (SetEndFrame frm) = Inr (setEndFrame v frm)"
| "perform v PlaybackStep = Inr (playbackStep v)"
| "perform v ResizeEvent = Inr (resizeEvent v)"
| "perform v (UpdatePlayhead pos_x) = updatePlayhead v pos_x"
| "perform v (UpdateEndFrame pos_x) = updateEndFrame v pos_x"
| "perform v (MouseRelease ti ci pos_x) = mouseReleaseEvent v ti ci pos_x"

text \<open>
  A handler that raises has changed nothing (each raises before its first assignment),
  and the event loop goes on with the next event.
\<close>

definition step :: "TimelineView \<Rightarrow> operation \<Rightarrow> TimelineView" where
  "step v opn = (case perform v opn of Inl e \<Rightarrow> v | Inr v' \<Rightarrow> v')"

definition run :: "TimelineView \<Rightarrow> operation list \<Rightarrow> TimelineView" where
  "run v ops = foldl step v ops"

text \<open>Every clip of the view starts at a non-negative frame.\<close>

definition starts_nonneg :: "TimelineView \<Rightarrow> bool" where
  "starts_nonneg v =
     list_all (\<lambda>track. list_all (\<lambda>clip. 0 \<le> start_frame clip) (clips track)) (tracks v)"

text \<open>The clips an operation brings into the view were created with non-negative starts.\<close>

fun creates_nonneg :: "operation \<Rightarrow> bool" where
  "creates_nonneg (AddTrack track) = list_all (\<lambda>clip. 0 \<le> start_frame clip) (clips track)"
| "creates_nonneg (AddClip ti clip) = (0 \<le> start_frame clip)"
| "creates_nonneg opn = True"

text \<open>
  The end frame that a layout pass computes for a view: 24 frames past the last clip
  end, and at least 100.
\<close>

definition layout_end_frame :: "TimelineView \<Rightarrow> real" where
  "layout_end_frame v = real_of_int (max (minimum_end_frame v + 24) 100)"

section \<open>Facts about the helpers\<close>

lemma py_round_of_int: "py_round (real_of_int n) = n"
  by (simp add: py_round_def)

lemma min_from_zero_key:
  "min_from (\<lambda>c. \<bar>c - original\<bar>) original cs = original"
  by (induction cs) simp_all

lemma chosen_candidate_original: "chosen_candidate original dur self cs = Inr original"
  by (simp add: chosen_candidate_def candidate_options_def min_from_zero_key)

lemma overlap_check_overlaps:
  "overlap_check candidate original dur self j cs =
     (if overlaps_other candidate dur self j cs then original else candidate)"
  by (induction cs arbitrary: j) auto

lemma overlap_check_same: "overlap_check original original dur self j cs = original"
  by (simp add: overlap_check_overlaps)

lemma resolve_frame_trivial:
  "resolve_frame left_margin base z pos_x dur self cs = trivial_frame left_margin base z pos_x"
  by (simp add: resolve_frame_def trivial_frame_def raw_frame_def chosen_candidate_original
      overlap_check_same split: sum.splits)

lemma trivial_frame_value:
  "base * z \<noteq> 0 \<Longrightarrow>
     trivial_frame left_margin base z pos_x
       = Inr (max 0 (py_round ((pos_x - left_margin) / (base * z))))"
  by (simp add: trivial_frame_def xToFrame_def py_div_def)

lemma mouseReleaseEvent_error:
  assumes "ti < length (tracks v)" and "ci < length (clips (tracks v ! ti))"
    and "resolve_frame (LEFT_MARGIN v) (BASE_PIXELS_PER_FRAME v) (h_zoom v) pos_x
           (duration_frames (clips (tracks v ! ti) ! ci)) ci (clips (tracks v ! ti)) = Inl e"
  shows "mouseReleaseEvent v ti ci pos_x = Inl e"
  using assms by (simp add: mouseReleaseEvent_def Let_def)

lemma mouseReleaseEvent_commit:
  assumes "ti < length (tracks v)" and "ci < length (clips (tracks v ! ti))"
    and "resolve_frame (LEFT_MARGIN v) (BASE_PIXELS_PER_FRAME v) (h_zoom v) pos_x
           (duration_frames (clips (tracks v ! ti) ! ci)) ci (clips (tracks v ! ti)) = Inr frm"
  shows "\<exists>v'. mouseReleaseEvent v ti ci pos_x = Inr v' \<and> clip_start v' ti ci = frm"
  using assms by (simp add: mouseReleaseEvent_def clip_start_def Let_def)

lemma get_theme_CDict: "get_theme (CDict d) = Inr (DEFAULT_CONSTANTS ++ (dark_theme ++ d))"
  by (simp add: get_theme_def THEMES_def dict_update_def)

lemma dark_clip_border: "dark_theme ''clip_border'' = Some (Str ''#000000'')"
  by (simp add: dark_theme_def)

lemma dark_no_left_margin: "dark_theme ''LEFT_MARGIN'' = None"
  by (simp add: dark_theme_def)

lemma default_left_margin: "DEFAULT_CONSTANTS ''LEFT_MARGIN'' = Some (Num 150)"
  by (simp add: DEFAULT_CONSTANTS_def)

lemma resolve_frame_overlap:
  assumes "raw_frame left_margin base z pos_x = Inr original"
    and "chosen_candidate original dur self cs = Inr candidate"
    and "overlaps_other candidate dur self 0 cs"
  shows "resolve_frame left_margin base z pos_x dur self cs = Inr (max 0 original)"
  using assms by (simp add: resolve_frame_def overlap_check_overlaps)

lemma tracks_updateLayout: "tracks (updateLayout v) = tracks v"
  by (simp add: updateLayout_def Let_def)

lemma minimum_end_frame_updateLayout: "minimum_end_frame (updateLayout v) = minimum_end_frame v"
  by (simp add: minimum_end_frame_def tracks_updateLayout)

lemma end_frame_updateLayout:
  "end_frame (updateLayout v) = real_of_int (max (minimum_end_frame v + 24) 100)"
  by (simp add: updateLayout_def Let_def)

lemma tracks_playbackStep: "tracks (playbackStep v) = tracks v"
  by (simp add: playbackStep_def updateFromPlayhead_def updateTime_def tracks_updateLayout Let_def)

lemma minimum_end_frame_playbackStep: "minimum_end_frame (playbackStep v) = minimum_end_frame v"
  by (simp add: minimum_end_frame_def tracks_playbackStep)

lemma end_frame_playbackStep:
  "end_frame (playbackStep v) = real_of_int (max (minimum_end_frame v + 24) 100)"
  by (simp add: playbackStep_def updateFromPlayhead_def end_frame_updateLayout
      minimum_end_frame_def tracks_updateLayout updateTime_def Let_def)

lemma playhead_frame_playbackStep:
  "playhead_frame (playbackStep v) =
     real_of_int (py_round (if playhead_frame v + 1 \<ge> end_frame v then 0
                            else playhead_frame v + 1))"
  by (simp add: playbackStep_def updateFromPlayhead_def updateTime_def updateLayout_def Let_def)

lemma playbackStep_integer_playhead:
  assumes "playhead_frame v \<in> \<int>"
  shows "playhead_frame (playbackStep v) =
           (if playhead_frame v + 1 \<ge> end_frame v then 0 else playhead_frame v + 1)"
proof -
  from assms obtain n where n: "playhead_frame v = real_of_int n"
    by (auto elim: Ints_cases)
  have "py_round (real_of_int n + 1) = n + 1"
    using py_round_of_int [of "n + 1"] by simp
  moreover have "py_round 0 = 0"
    using py_round_of_int [of 0] by simp
  ultimately show ?thesis
    by (simp add: playhead_frame_playbackStep n)
qed

lemma playback_counts:
  assumes p: "playhead_frame v = 0"
    and e: "\<forall>k\<le>100. end_frame ((playbackStep ^^ k) v) = 100"
  shows "k < 100 \<Longrightarrow> playhead_frame ((playbackStep ^^ k) v) = real k"
proof (induction k)
  case 0
  then show ?case using p by simp
next
  case (Suc k)
  then have ih: "playhead_frame ((playbackStep ^^ k) v) = real k" by simp
  have en: "end_frame ((playbackStep ^^ k) v) = 100" using e Suc.prems by simp
  have "playhead_frame ((playbackStep ^^ k) v) \<in> \<int>" using ih by simp
  from playbackStep_integer_playhead [OF this]
  show ?case using ih en Suc.prems by simp
qed

lemma playback_end_stays:
  assumes "minimum_end_frame v \<le> 76" and "end_frame v = 100"
  shows "end_frame ((playbackStep ^^ k) v) = 100
         \<and> minimum_end_frame ((playbackStep ^^ k) v) \<le> 76"
proof (induction k)
  case 0
  then show ?case using assms by simp
next
  case (Suc k)
  then show ?case
    by (simp add: end_frame_playbackStep minimum_end_frame_playbackStep)
qed

lemma init_default:
  "playhead_frame (TimelineView_init 150 30 20 2 10) = 0"
  "end_frame (TimelineView_init 150 30 20 2 10) = 100"
  "minimum_end_frame (TimelineView_init 150 30 20 2 10) = 0"
  by (simp_all add: TimelineView_init_def updateLayout_def minimum_end_frame_def Let_def)

lemma updateLayout_layout_end: "end_frame (updateLayout v) = layout_end_frame (updateLayout v)"
  by (simp add: layout_end_frame_def end_frame_updateLayout minimum_end_frame_updateLayout)

lemma layout_end_frame_no_tracks: "tracks v = [] \<Longrightarrow> layout_end_frame v = 100"
  by (simp add: layout_end_frame_def minimum_end_frame_def)

lemma updateLayout_end_ignores_stored:
  "end_frame (updateLayout (v\<lparr>end_frame := e\<rparr>)) = layout_end_frame v"
  by (simp add: layout_end_frame_def end_frame_updateLayout minimum_end_frame_def)

lemma starts_nonneg_tracks: "tracks v' = tracks v \<Longrightarrow> starts_nonneg v' = starts_nonneg v"
  by (simp add: starts_nonneg_def)

lemma starts_nonneg_updateLayout: "starts_nonneg (updateLayout v) = starts_nonneg v"
  by (rule starts_nonneg_tracks) (rule tracks_updateLayout)

lemma resolve_frame_nonneg:
  "resolve_frame left_margin base z pos_x dur self cs = Inr frm \<Longrightarrow> 0 \<le> frm"
  by (auto simp: resolve_frame_def split: sum.splits)

lemma list_all_update:
  "list_all P xs \<Longrightarrow> P x \<Longrightarrow> list_all P (xs[i := x])"
  by (induction xs arbitrary: i) (auto split: nat.splits)

lemma starts_nonneg_mouseReleaseEvent:
  assumes "starts_nonneg v" and "mouseReleaseEvent v ti ci pos_x = Inr v'"
  shows "starts_nonneg v'"
proof (cases "ti < length (tracks v) \<and> ci < length (clips (tracks v ! ti))")
  case False
  then have "v' = v" using assms(2) by (auto simp: mouseReleaseEvent_def)
  then show ?thesis using assms(1) by simp
next
  case True
  let ?track = "tracks v ! ti"
  let ?clip = "clips ?track ! ci"
  from True assms(2) obtain frm where
    r: "resolve_frame (LEFT_MARGIN v) (BASE_PIXELS_PER_FRAME v) (h_zoom v) pos_x
          (duration_frames ?clip) ci (clips ?track) = Inr frm"
    and v': "v' = v\<lparr>tracks := (tracks v)
                [ti := ?track\<lparr>clips := (clips ?track)[ci := ?clip\<lparr>start_frame := frm\<rparr>]\<rparr>]\<rparr>"
    by (auto simp: mouseReleaseEvent_def Let_def split: sum.splits)
  have f: "0 \<le> frm" using r by (rule resolve_frame_nonneg)
  have a: "list_all (\<lambda>track. list_all (\<lambda>clip. 0 \<le> start_frame clip) (clips track)) (tracks v)"
    using assms(1) by (simp add: starts_nonneg_def)
  have "?track \<in> set (tracks v)" using True by simp
  then have "list_all (\<lambda>clip. 0 \<le> start_frame clip) (clips ?track)"
    using a by (simp add: list_all_iff)
  then have "list_all (\<lambda>clip. 0 \<le> start_frame clip)
               ((clips ?track)[ci := ?clip\<lparr>start_frame := frm\<rparr>])"
    using f by (intro list_all_update) simp_all
  then show ?thesis
    using a by (simp add: v' starts_nonneg_def list_all_update)
qed

lemma starts_nonneg_perform:
  assumes "starts_nonneg v" and "creates_nonneg opn" and "perform v opn = Inr v'"
  shows "starts_nonneg v'"
proof (cases opn)
  case (AddTrack track)
  then show ?thesis using assms
    by (auto simp: addTrack_def starts_nonneg_updateLayout) (simp add: starts_nonneg_def)
next
  case (AddClip ti clip)
  show ?thesis
  proof (cases "ti < length (tracks v)")
    case False
    then show ?thesis using assms AddClip by auto
  next
    case True
    have a: "list_all (\<lambda>track. list_all (\<lambda>clip. 0 \<le> start_frame clip) (clips track)) (tracks v)"
      using assms(1) by (simp add: starts_nonneg_def)
    have "tracks v ! ti \<in> set (tracks v)" using True by simp
    then have "list_all (\<lambda>clip. 0 \<le> start_frame clip) (clips (tracks v ! ti))"
      using a by (simp add: list_all_iff)
    then have "list_all (\<lambda>clip. 0 \<le> start_frame clip) (clips (add_clip (tracks v ! ti) clip))"
      using assms(2) AddClip by (simp add: add_clip_def)
    then show ?thesis
      using a assms(3) AddClip True by (auto simp: starts_nonneg_def list_all_update)
  qed
next
  case (SetHZoom val)
  then show ?thesis using assms
    by (auto simp: setHZoom_def starts_nonneg_updateLayout) (simp add: starts_nonneg_def)
next
  case (SetVZoom val)
  then show ?thesis using assms
    by (auto simp: setVZoom_def starts_nonneg_updateLayout) (simp add: starts_nonneg_def)
next
  case (UpdateFromPlayhead frm)
  then show ?thesis using assms
    by (auto simp: updateFromPlayhead_def updateTime_def Let_def starts_nonneg_updateLayout)
       (simp add: starts_nonneg_def)
next
  case (SetPlayheadFrame frm)
  then show ?thesis using assms
    by (auto simp: setPlayheadFrame_def updateTime_def Let_def starts_nonneg_updateLayout)
       (simp add: starts_nonneg_def)
next
  case (SetEndFrame frm)
  then show ?thesis using assms
    by (auto simp: setEndFrame_def Let_def starts_nonneg_updateLayout)
       (simp_all add: starts_nonneg_def)
next
  case PlaybackStep
  then show ?thesis using assms
    by (auto intro: starts_nonneg_tracks [THEN iffD2] simp: tracks_playbackStep)
next
  case ResizeEvent
  then show ?thesis using assms
    by (auto simp: resizeEvent_def starts_nonneg_updateLayout)
next
  case (UpdatePlayhead pos_x)
  then show ?thesis using assms
    by (auto simp: updatePlayhead_def setPlayheadFrame_def updateTime_def Let_def
        starts_nonneg_updateLayout split: sum.splits) (simp add: starts_nonneg_def)
next
  case (UpdateEndFrame pos_x)
  then show ?thesis using assms
    by (auto simp: updateEndFrame_def setEndFrame_def Let_def
        starts_nonneg_updateLayout split: sum.splits) (simp_all add: starts_nonneg_def)
next
  case (MouseRelease ti ci pos_x)
  then show ?thesis using assms starts_nonneg_mouseReleaseEvent by auto
qed

lemma starts_nonneg_step:
  "starts_nonneg v \<Longrightarrow> creates_nonneg opn \<Longrightarrow> starts_nonneg (step v opn)"
  by (auto simp: step_def split: sum.splits intro: starts_nonneg_perform)

lemma starts_nonneg_run:
  "starts_nonneg v \<Longrightarrow> list_all creates_nonneg ops \<Longrightarrow> starts_nonneg (run v ops)"
  unfolding run_def
  by (induction ops arbitrary: v) (auto intro: starts_nonneg_step)

lemma starts_nonneg_init:
  "starts_nonneg (TimelineView_init left_margin top_margin bottom_margin spacing base)"
  by (simp add: TimelineView_init_def starts_nonneg_updateLayout) (simp add: starts_nonneg_def)

section \<open>The end frame after \<open>setEndFrame\<close>\<close>

text \<open>
  C1. With a single clip that ends at frame 200, \<open>setEndFrame(150)\<close> should leave 200 as
  the stored end frame. The setter does clamp 150 up to 200 and store it, but the layout
  pass it then runs stores \<open>max(200 + 24, 100)\<close> over it: the end frame after the call
  is 224.
\<close>

theorem setEndFrame_single_clip:
  "end_frame
     (setEndFrame
        (addTrack (TimelineView_init 150 30 20 2 10)
           \<lparr>name = ''V1'', height = 60,
            clips = [\<lparr>title = ''A'', start_frame = 0, duration_frames = 200\<rparr>]\<rparr>)
        150) = 224"
  by (simp add: setEndFrame_def addTrack_def TimelineView_init_def updateLayout_def
      minimum_end_frame_def Let_def)

text \<open>
  C10. After a layout pass the stored end frame is \<open>max(minimum_end_frame() + 24, 100)\<close>,
  and so it is after \<open>addTrack\<close>, \<open>setPlayheadFrame\<close>, \<open>setEndFrame\<close>, a zoom change, a
  playback tick and a resize, each of which ends with a layout pass. The value stored
  before the pass, by \<open>setEndFrame\<close> or otherwise, has no influence. Without tracks the
  end frame is 100.
\<close>

theorem layout_recomputes_end_frame:
  "end_frame (updateLayout v) = layout_end_frame (updateLayout v)
   \<and> end_frame (addTrack v track) = layout_end_frame (addTrack v track)
   \<and> end_frame (setPlayheadFrame v frm) = layout_end_frame (setPlayheadFrame v frm)
   \<and> end_frame (setEndFrame v frm) = layout_end_frame (setEndFrame v frm)
   \<and> end_frame (setHZoom v val) = layout_end_frame (setHZoom v val)
   \<and> end_frame (setVZoom v val) = layout_end_frame (setVZoom v val)
   \<and> end_frame (playbackStep v) = layout_end_frame (playbackStep v)
   \<and> end_frame (updateFromPlayhead v frm) = layout_end_frame (updateFromPlayhead v frm)
   \<and> end_frame (resizeEvent v) = layout_end_frame (resizeEvent v)
   \<and> end_frame (updateLayout (v\<lparr>end_frame := e\<rparr>)) = layout_end_frame v
   \<and> end_frame (setEndFrame v frm) = layout_end_frame v
   \<and> (tracks v = [] \<longrightarrow>
        end_frame (updateLayout v) = 100
        \<and> end_frame (setPlayheadFrame v frm) = 100
        \<and> end_frame (setEndFrame v frm) = 100
        \<and> end_frame (setHZoom v val) = 100
        \<and> end_frame (setVZoom v val) = 100
        \<and> end_frame (playbackStep v) = 100
        \<and> end_frame (resizeEvent v) = 100)"
proof (intro conjI impI)
  show "end_frame (updateLayout v) = layout_end_frame (updateLayout v)"
    by (rule updateLayout_layout_end)
  show "end_frame (addTrack v track) = layout_end_frame (addTrack v track)"
    by (simp only: addTrack_def updateLayout_layout_end)
  show "end_frame (setPlayheadFrame v frm) = layout_end_frame (setPlayheadFrame v frm)"
    by (simp only: setPlayheadFrame_def Let_def updateLayout_layout_end)
  show "end_frame (setEndFrame v frm) = layout_end_frame (setEndFrame v frm)"
    by (simp only: setEndFrame_def Let_def updateLayout_layout_end)
  show "end_frame (setHZoom v val) = layout_end_frame (setHZoom v val)"
    by (simp only: setHZoom_def updateLayout_layout_end)
  show "end_frame (setVZoom v val) = layout_end_frame (setVZoom v val)"
    by (simp only: setVZoom_def updateLayout_layout_end)
  show "end_frame (playbackStep v) = layout_end_frame (playbackStep v)"
    by (simp only: playbackStep_def updateFromPlayhead_def Let_def updateLayout_layout_end)
  show "end_frame (updateFromPlayhead v frm) = layout_end_frame (updateFromPlayhead v frm)"
    by (simp only: updateFromPlayhead_def Let_def updateLayout_layout_end)
  show "end_frame (resizeEvent v) = layout_end_frame (resizeEvent v)"
    by (simp only: resizeEvent_def updateLayout_layout_end)
  show "end_frame (updateLayout (v\<lparr>end_frame := e\<rparr>)) = layout_end_frame v"
    by (rule updateLayout_end_ignores_stored)
  show s: "end_frame (setEndFrame v frm) = layout_end_frame v"
    by (simp only: setEndFrame_def Let_def updateLayout_end_ignores_stored)
next
  assume t: "tracks v = []"
  then have l: "layout_end_frame v = 100" by (rule layout_end_frame_no_tracks)
  show "end_frame (updateLayout v) = 100"
    using l by (simp add: end_frame_updateLayout layout_end_frame_def)
  show "end_frame (setPlayheadFrame v frm) = 100"
    using l by (simp add: setPlayheadFrame_def updateTime_def end_frame_updateLayout
        layout_end_frame_def minimum_end_frame_def Let_def)
  show "end_frame (setEndFrame v frm) = 100"
    using l by (simp add: setEndFrame_def end_frame_updateLayout
        layout_end_frame_def minimum_end_frame_def Let_def)
  show "end_frame (setHZoom v val) = 100"
    using l by (simp add: setHZoom_def end_frame_updateLayout
        layout_end_frame_def minimum_end_frame_def)
  show "end_frame (setVZoom v val) = 100"
    using l by (simp add: setVZoom_def end_frame_updateLayout
        layout_end_frame_def minimum_end_frame_def)
  show "end_frame (playbackStep v) = 100"
    using l by (simp add: end_frame_playbackStep layout_end_frame_def)
  show "end_frame (resizeEvent v) = 100"
    using l by (simp add: resizeEvent_def end_frame_updateLayout layout_end_frame_def)
qed

theorem layout_recomputes_end_frame_witness:
  "tracks (TimelineView_init 150 30 20 2 10) = []
   \<and> end_frame (setEndFrame (TimelineView_init 150 30 20 2 10) 500) = 100
   \<and> end_frame (playbackStep (TimelineView_init 150 30 20 2 10)) = 100"
proof -
  have t: "tracks (TimelineView_init 150 30 20 2 10) = []"
    by (simp add: TimelineView_init_def tracks_updateLayout)
  from layout_recomputes_end_frame
    [where v = "TimelineView_init 150 30 20 2 10" and frm = 500] t
  show ?thesis by blast
qed

section \<open>Snapping at a release\<close>

text \<open>
  C2. Clip A occupies frames 0 to 100 and clip B (10 frames long) is released at the
  pixel of frame 101, at zoom 1. The candidates are 101 and then the snap candidate 100;
  the candidate nearest to 101 is 101 itself, so B is committed at 101 and not at 100.
\<close>

theorem release_beside_clip_end:
  "candidate_options 101 10 1
     [\<lparr>title = ''A'', start_frame = 0, duration_frames = 100\<rparr>,
      \<lparr>title = ''B'', start_frame = 300, duration_frames = 10\<rparr>] = [101, 100]
   \<and> resolve_frame 150 10 1 1160 10 1
     [\<lparr>title = ''A'', start_frame = 0, duration_frames = 100\<rparr>,
      \<lparr>title = ''B'', start_frame = 300, duration_frames = 10\<rparr>] = Inr 101"
  by (simp add: resolve_frame_def raw_frame_def xToFrame_def py_div_def py_round_def
      chosen_candidate_def candidate_options_def SNAP_TOLERANCE_def Let_def)

text \<open>
  C3. Whatever the other clips of the track are, the frame a release commits is the
  frame under the item, rounded and clamped to be non-negative: the resolver with its
  snapping and its overlap check equals the resolver that only rounds and clamps. When
  the pixels per frame times the zoom is zero, both raise at the division. For a clip
  of a view, that frame is what the release stores as the clip's start.
\<close>

theorem release_is_round_and_clamp:
  "resolve_frame left_margin base z pos_x dur self cs = trivial_frame left_margin base z pos_x
   \<and> (base * z \<noteq> 0 \<longrightarrow>
        resolve_frame left_margin base z pos_x dur self cs
          = Inr (max 0 (py_round ((pos_x - left_margin) / (base * z)))))
   \<and> (ti < length (tracks v) \<longrightarrow> ci < length (clips (tracks v ! ti)) \<longrightarrow>
        (case trivial_frame (LEFT_MARGIN v) (BASE_PIXELS_PER_FRAME v) (h_zoom v) pos_x of
           Inl e \<Rightarrow> mouseReleaseEvent v ti ci pos_x = Inl e
         | Inr frm \<Rightarrow>
             (\<exists>v'. mouseReleaseEvent v ti ci pos_x = Inr v' \<and> clip_start v' ti ci = frm)))"
proof (intro conjI impI)
  show "resolve_frame left_margin base z pos_x dur self cs
          = trivial_frame left_margin base z pos_x"
    by (rule resolve_frame_trivial)
next
  assume nz: "base * z \<noteq> 0"
  show "resolve_frame left_margin base z pos_x dur self cs
               = Inr (max 0 (py_round ((pos_x - left_margin) / (base * z))))"
    using trivial_frame_value [OF nz] by (simp only: resolve_frame_trivial)
next
  assume r: "ti < length (tracks v)" "ci < length (clips (tracks v ! ti))"
  show "case trivial_frame (LEFT_MARGIN v) (BASE_PIXELS_PER_FRAME v) (h_zoom v) pos_x of
           Inl e \<Rightarrow> mouseReleaseEvent v ti ci pos_x = Inl e
         | Inr frm \<Rightarrow>
             (\<exists>v'. mouseReleaseEvent v ti ci pos_x = Inr v' \<and> clip_start v' ti ci = frm)"
  proof (cases "trivial_frame (LEFT_MARGIN v) (BASE_PIXELS_PER_FRAME v) (h_zoom v) pos_x")
    case (Inl e)
    then show ?thesis
      using mouseReleaseEvent_error [OF r] by (simp add: resolve_frame_trivial)
  next
    case (Inr frm)
    then show ?thesis
      using mouseReleaseEvent_commit [OF r] by (simp add: resolve_frame_trivial)
  qed
qed

theorem release_is_round_and_clamp_witness:
  "(10::real) * 1 \<noteq> 0
   \<and> 0 < length (tracks (addTrack (TimelineView_init 150 30 20 2 10)
          \<lparr>name = ''V1'', height = 60, clips =
            [\<lparr>title = ''A'', start_frame = 0, duration_frames = 50\<rparr>,
             \<lparr>title = ''B'', start_frame = 50, duration_frames = 50\<rparr>,
             \<lparr>title = ''C'', start_frame = 200, duration_frames = 10\<rparr>]\<rparr>))
   \<and> 2 < length (clips (tracks (addTrack (TimelineView_init 150 30 20 2 10)
          \<lparr>name = ''V1'', height = 60, clips =
            [\<lparr>title = ''A'', start_frame = 0, duration_frames = 50\<rparr>,
             \<lparr>title = ''B'', start_frame = 50, duration_frames = 50\<rparr>,
             \<lparr>title = ''C'', start_frame = 200, duration_frames = 10\<rparr>]\<rparr>) ! 0))
   \<and> candidate_options 39 10 2
        [\<lparr>title = ''A'', start_frame = 0, duration_frames = 50\<rparr>,
         \<lparr>title = ''B'', start_frame = 50, duration_frames = 50\<rparr>,
         \<lparr>title = ''C'', start_frame = 200, duration_frames = 10\<rparr>] = [39, 40]
   \<and> (\<exists>v'. mouseReleaseEvent (addTrack (TimelineView_init 150 30 20 2 10)
          \<lparr>name = ''V1'', height = 60, clips =
            [\<lparr>title = ''A'', start_frame = 0, duration_frames = 50\<rparr>,
             \<lparr>title = ''B'', start_frame = 50, duration_frames = 50\<rparr>,
             \<lparr>title = ''C'', start_frame = 200, duration_frames = 10\<rparr>]\<rparr>) 0 2 540 = Inr v'
         \<and> clip_start v' 0 2 = 39)"
proof -
  let ?cs = "[\<lparr>title = ''A'', start_frame = 0, duration_frames = 50\<rparr>,
              \<lparr>title = ''B'', start_frame = 50, duration_frames = 50\<rparr>,
              \<lparr>title = ''C'', start_frame = 200, duration_frames = 10\<rparr>]"
  let ?v = "addTrack (TimelineView_init 150 30 20 2 10)
              \<lparr>name = ''V1'', height = 60, clips = ?cs\<rparr>"
  have t: "tracks ?v = [\<lparr>name = ''V1'', height = 60, clips = ?cs\<rparr>]"
    by (simp add: addTrack_def TimelineView_init_def updateLayout_def Let_def)
  have k: "LEFT_MARGIN ?v = 150" "BASE_PIXELS_PER_FRAME ?v = 10" "h_zoom ?v = 1"
    by (simp_all add: addTrack_def TimelineView_init_def updateLayout_def Let_def)
  have nz: "(10::real) * 1 \<noteq> 0" by simp
  have r: "trivial_frame 150 10 1 540 = Inr 39"
    by (simp add: trivial_frame_def xToFrame_def py_div_def py_round_def Let_def)
  have c: "candidate_options 39 10 2 ?cs = [39, 40]"
    by (simp add: candidate_options_def SNAP_TOLERANCE_def Let_def)
  have i: "0 < length (tracks ?v)" "2 < length (clips (tracks ?v ! 0))"
    by (simp_all add: t)
  from release_is_round_and_clamp [where v = ?v and ti = 0 and ci = 2 and pos_x = 540]
  have "\<exists>v'. mouseReleaseEvent ?v 0 2 540 = Inr v' \<and> clip_start v' 0 2 = 39"
    using i by (simp add: k r)
  then show ?thesis using nz c i by blast
qed

text \<open>
  C4, as stated, at a release left of the left margin. Clip A occupies frames 0 to 50
  and the dragged clip is 10 frames long; released at x = 100 the frame under it is -5,
  which is also the chosen candidate, and \<open>[-5, 5)\<close> overlaps A. The release commits 0,
  not the frame -5.
\<close>

theorem release_overlap_negative_frame:
  "raw_frame 150 10 1 100 = Inr (- 5)
   \<and> chosen_candidate (- 5) 10 1
        [\<lparr>title = ''A'', start_frame = 0, duration_frames = 50\<rparr>,
         \<lparr>title = ''C'', start_frame = 60, duration_frames = 10\<rparr>] = Inr (- 5)
   \<and> overlaps_other (- 5) 10 1 0
        [\<lparr>title = ''A'', start_frame = 0, duration_frames = 50\<rparr>,
         \<lparr>title = ''C'', start_frame = 60, duration_frames = 10\<rparr>]
   \<and> resolve_frame 150 10 1 100 10 1
        [\<lparr>title = ''A'', start_frame = 0, duration_frames = 50\<rparr>,
         \<lparr>title = ''C'', start_frame = 60, duration_frames = 10\<rparr>] = Inr 0
   \<and> resolve_frame 150 10 1 100 10 1
        [\<lparr>title = ''A'', start_frame = 0, duration_frames = 50\<rparr>,
         \<lparr>title = ''C'', start_frame = 60, duration_frames = 10\<rparr>] \<noteq> Inr (- 5)"
  by (simp add: resolve_frame_def raw_frame_def xToFrame_def py_div_def py_round_def
      chosen_candidate_def candidate_options_def SNAP_TOLERANCE_def Let_def)

text \<open>
  C4, amended. When the chosen candidate would overlap another clip of the track, the
  release commits \<open>max(0, original_candidate)\<close>, with no further overlap correction:
  the frame under the item itself whenever that frame is not negative. With A on
  \<open>[0, 50)\<close> and B on \<open>[50, 100)\<close>, a clip C of 10 frames released at frame 45 is
  committed at 45, although \<open>[45, 55)\<close> overlaps A.
\<close>

theorem release_overlap_reverts:
  "(raw_frame left_margin base z pos_x = Inr original \<longrightarrow>
    chosen_candidate original dur self cs = Inr candidate \<longrightarrow>
    overlaps_other candidate dur self 0 cs \<longrightarrow>
      resolve_frame left_margin base z pos_x dur self cs = Inr (max 0 original)
      \<and> (0 \<le> original \<longrightarrow>
           resolve_frame left_margin base z pos_x dur self cs = Inr original))
   \<and> overlaps_other 45 10 2 0
        [\<lparr>title = ''A'', start_frame = 0, duration_frames = 50\<rparr>,
         \<lparr>title = ''B'', start_frame = 50, duration_frames = 50\<rparr>,
         \<lparr>title = ''C'', start_frame = 200, duration_frames = 10\<rparr>]
   \<and> resolve_frame 150 10 1 600 10 2
        [\<lparr>title = ''A'', start_frame = 0, duration_frames = 50\<rparr>,
         \<lparr>title = ''B'', start_frame = 50, duration_frames = 50\<rparr>,
         \<lparr>title = ''C'', start_frame = 200, duration_frames = 10\<rparr>] = Inr 45"
proof (intro conjI impI)
  assume a: "raw_frame left_margin base z pos_x = Inr original"
    "chosen_candidate original dur self cs = Inr candidate"
    "overlaps_other candidate dur self 0 cs"
  show "resolve_frame left_margin base z pos_x dur self cs = Inr (max 0 original)"
    using a by (rule resolve_frame_overlap)
  assume "0 \<le> original"
  then show "resolve_frame left_margin base z pos_x dur self cs = Inr original"
    using resolve_frame_overlap [OF a] by simp
next
  show "overlaps_other 45 10 2 0
        [\<lparr>title = ''A'', start_frame = 0, duration_frames = 50\<rparr>,
         \<lparr>title = ''B'', start_frame = 50, duration_frames = 50\<rparr>,
         \<lparr>title = ''C'', start_frame = 200, duration_frames = 10\<rparr>]"
    by simp
next
  show "resolve_frame 150 10 1 600 10 2
        [\<lparr>title = ''A'', start_frame = 0, duration_frames = 50\<rparr>,
         \<lparr>title = ''B'', start_frame = 50, duration_frames = 50\<rparr>,
         \<lparr>title = ''C'', start_frame = 200, duration_frames = 10\<rparr>] = Inr 45"
    by (simp add: resolve_frame_def raw_frame_def xToFrame_def py_div_def py_round_def
        chosen_candidate_def candidate_options_def SNAP_TOLERANCE_def Let_def)
qed

theorem release_overlap_reverts_witness:
  "raw_frame 150 10 (107 / 200) (1577 / 4) = Inr 46
   \<and> chosen_candidate 46 10 2
        [\<lparr>title = ''A'', start_frame = 0, duration_frames = 50\<rparr>,
         \<lparr>title = ''B'', start_frame = 50, duration_frames = 50\<rparr>,
         \<lparr>title = ''C'', start_frame = 200, duration_frames = 10\<rparr>] = Inr 46
   \<and> overlaps_other 46 10 2 0
        [\<lparr>title = ''A'', start_frame = 0, duration_frames = 50\<rparr>,
         \<lparr>title = ''B'', start_frame = 50, duration_frames = 50\<rparr>,
         \<lparr>title = ''C'', start_frame = 200, duration_frames = 10\<rparr>]
   \<and> (0::int) \<le> 46
   \<and> resolve_frame 150 10 (107 / 200) (1577 / 4) 10 2
        [\<lparr>title = ''A'', start_frame = 0, duration_frames = 50\<rparr>,
         \<lparr>title = ''B'', start_frame = 50, duration_frames = 50\<rparr>,
         \<lparr>title = ''C'', start_frame = 200, duration_frames = 10\<rparr>] = Inr 46"
proof -
  let ?cs = "[\<lparr>title = ''A'', start_frame = 0, duration_frames = 50\<rparr>,
              \<lparr>title = ''B'', start_frame = 50, duration_frames = 50\<rparr>,
              \<lparr>title = ''C'', start_frame = 200, duration_frames = 10\<rparr>]"
  have r: "raw_frame 150 10 (107 / 200) (1577 / 4) = Inr 46"
    by (simp add: raw_frame_def xToFrame_def py_div_def py_round_def Let_def)
  have c: "chosen_candidate 46 10 2 ?cs = Inr 46"
    by (simp add: chosen_candidate_def candidate_options_def SNAP_TOLERANCE_def Let_def)
  have o: "overlaps_other 46 10 2 0 ?cs"
    by simp
  have p: "(0::int) \<le> 46" by simp
  from release_overlap_reverts
    [where left_margin = 150 and base = 10 and z = "107 / 200" and pos_x = "1577 / 4"
       and original = 46 and dur = 10 and self = 2 and cs = ?cs and candidate = 46]
  have "resolve_frame 150 10 (107 / 200) (1577 / 4) 10 2 ?cs = Inr 46"
    using r c o p by blast
  then show ?thesis using r c o p by blast
qed

section \<open>Start frames stay non-negative\<close>

text \<open>
  C8. If every clip of a view starts at a non-negative frame and the clips an operation
  adds were created with non-negative starts, every clip starts at a non-negative frame
  after the operation; so it is after any sequence of operations, from any such view
  and from a freshly constructed one. A release stores \<open>max(0, candidate)\<close>, so the start
  it commits is never negative, also when the frame under the item is.
\<close>

theorem starts_stay_nonneg:
  "(starts_nonneg v \<longrightarrow> creates_nonneg opn \<longrightarrow> starts_nonneg (step v opn))
   \<and> (starts_nonneg v \<longrightarrow> list_all creates_nonneg ops \<longrightarrow> starts_nonneg (run v ops))
   \<and> (list_all creates_nonneg ops \<longrightarrow>
        starts_nonneg (run (TimelineView_init left_margin top_margin bottom_margin spacing base) ops))
   \<and> (ti < length (tracks v) \<longrightarrow> ci < length (clips (tracks v ! ti)) \<longrightarrow>
        mouseReleaseEvent v ti ci pos_x = Inr v' \<longrightarrow> 0 \<le> clip_start v' ti ci)"
proof (intro conjI impI)
  assume "starts_nonneg v" and "creates_nonneg opn"
  then show "starts_nonneg (step v opn)" by (rule starts_nonneg_step)
next
  assume "starts_nonneg v" and "list_all creates_nonneg ops"
  then show "starts_nonneg (run v ops)" by (rule starts_nonneg_run)
next
  assume "list_all creates_nonneg ops"
  with starts_nonneg_init
  show "starts_nonneg (run (TimelineView_init left_margin top_margin bottom_margin spacing base) ops)"
    by (rule starts_nonneg_run)
next
  assume r: "ti < length (tracks v)" "ci < length (clips (tracks v ! ti))"
    and m: "mouseReleaseEvent v ti ci pos_x = Inr v'"
  show "0 \<le> clip_start v' ti ci"
  proof (cases "resolve_frame (LEFT_MARGIN v) (BASE_PIXELS_PER_FRAME v) (h_zoom v) pos_x
           (duration_frames (clips (tracks v ! ti) ! ci)) ci (clips (tracks v ! ti))")
    case (Inl e)
    then show ?thesis using mouseReleaseEvent_error [OF r] m by simp
  next
    case (Inr frm)
    then have "0 \<le> frm" by (rule resolve_frame_nonneg)
    then show ?thesis using mouseReleaseEvent_commit [OF r Inr] m by auto
  qed
qed

theorem starts_stay_nonneg_witness:
  "list_all creates_nonneg
     [AddTrack \<lparr>name = ''V1'', height = 60, clips =
        [\<lparr>title = ''A'', start_frame = 0, duration_frames = 50\<rparr>,
         \<lparr>title = ''C'', start_frame = 60, duration_frames = 10\<rparr>]\<rparr>,
      MouseRelease 0 1 100]
   \<and> starts_nonneg (run (TimelineView_init 150 30 20 2 10)
     [AddTrack \<lparr>name = ''V1'', height = 60, clips =
        [\<lparr>title = ''A'', start_frame = 0, duration_frames = 50\<rparr>,
         \<lparr>title = ''C'', start_frame = 60, duration_frames = 10\<rparr>]\<rparr>,
      MouseRelease 0 1 100])
   \<and> raw_frame 150 10 1 100 = Inr (- 5)
   \<and> (\<exists>v'. mouseReleaseEvent
          (addTrack (TimelineView_init 150 30 20 2 10)
             \<lparr>name = ''V1'', height = 60, clips =
               [\<lparr>title = ''A'', start_frame = 0, duration_frames = 50\<rparr>,
                \<lparr>title = ''C'', start_frame = 60, duration_frames = 10\<rparr>]\<rparr>) 0 1 100 = Inr v'
         \<and> 0 \<le> clip_start v' 0 1)"
proof -
  let ?cs = "[\<lparr>title = ''A'', start_frame = 0, duration_frames = 50\<rparr>,
              \<lparr>title = ''C'', start_frame = 60, duration_frames = 10\<rparr>]"
  let ?tr = "\<lparr>name = ''V1'', height = 60, clips = ?cs\<rparr>"
  let ?start = "TimelineView_init 150 30 20 2 10"
  let ?v = "addTrack ?start ?tr"
  let ?ops = "[AddTrack ?tr, MouseRelease 0 1 100]"
  have c: "list_all creates_nonneg ?ops" by simp
  have t: "tracks ?v = [?tr]"
    by (simp add: addTrack_def TimelineView_init_def updateLayout_def Let_def)
  have k: "LEFT_MARGIN ?v = 150" "BASE_PIXELS_PER_FRAME ?v = 10" "h_zoom ?v = 1"
    by (simp_all add: addTrack_def TimelineView_init_def updateLayout_def Let_def)
  have i: "0 < length (tracks ?v)" "1 < length (clips (tracks ?v ! 0))"
    by (simp_all add: t)
  have raw: "raw_frame 150 10 1 100 = Inr (- 5)"
    by (simp add: raw_frame_def xToFrame_def py_div_def py_round_def Let_def)
  have "trivial_frame 150 10 1 100 = Inr 0"
    by (simp add: trivial_frame_def xToFrame_def py_div_def py_round_def Let_def)
  then have "resolve_frame (LEFT_MARGIN ?v) (BASE_PIXELS_PER_FRAME ?v) (h_zoom ?v) 100
      (duration_frames (clips (tracks ?v ! 0) ! 1)) 1 (clips (tracks ?v ! 0)) = Inr 0"
    by (simp only: resolve_frame_trivial k)
  from mouseReleaseEvent_commit [OF i this]
  obtain v' where m: "mouseReleaseEvent ?v 0 1 100 = Inr v'" by blast
  note s = starts_stay_nonneg
    [where v = ?v and ti = 0 and ci = 1 and pos_x = 100 and v' = v' and ops = ?ops
       and left_margin = 150 and top_margin = 30 and bottom_margin = 20 and spacing = 2
       and base = 10 and opn = PlaybackStep]
  have n: "0 \<le> clip_start v' 0 1"
    by (rule s [THEN conjunct2, THEN conjunct2, THEN conjunct2, rule_format, OF i m])
  have r: "starts_nonneg (run ?start ?ops)"
    by (rule s [THEN conjunct2, THEN conjunct2, THEN conjunct1, rule_format, OF c])
  show ?thesis using c r raw m n by blast
qed

section \<open>The playhead setter\<close>

text \<open>
  C5. \<open>setPlayheadFrame(frame)\<close> should store \<open>round(frame)\<close> as the playhead frame. For
  the frame 2.7 it stores 2.7 itself; the rounded value 3 goes only to the time label.
  \<open>updateFromPlayhead\<close>, the setter the playback tick uses, does store 3.
\<close>

theorem setPlayheadFrame_stores_argument:
  "playhead_frame (setPlayheadFrame v (27 / 10)) = 27 / 10
   \<and> real_of_int (py_round (27 / 10)) = 3
   \<and> timeLabel_frame (setPlayheadFrame v (27 / 10)) = 3
   \<and> playhead_frame (updateFromPlayhead v (27 / 10)) = 3"
  by (simp add: setPlayheadFrame_def updateFromPlayhead_def updateTime_def updateLayout_def
      py_round_def Let_def)

section \<open>Playback\<close>

text \<open>
  C6, as stated, at a playhead frame that is not an integer. \<open>setPlayheadFrame\<close> stores
  the frame it is given, as a drag of the playhead gives it, so a fresh view can hold the
  playhead frame 2.7 with end frame 100. The next tick stores \<open>round(3.7) = 4\<close>: it has
  added 1.3 and not exactly 1. From 98.6 the tick stores \<open>round(99.6) = 100\<close>, the end
  frame itself, without wrapping.
\<close>

theorem playback_tick_fractional_playhead:
  "playhead_frame (setPlayheadFrame (TimelineView_init 150 30 20 2 10) (27 / 10)) = 27 / 10
   \<and> end_frame (setPlayheadFrame (TimelineView_init 150 30 20 2 10) (27 / 10)) = 100
   \<and> playhead_frame
        (playbackStep (setPlayheadFrame (TimelineView_init 150 30 20 2 10) (27 / 10))) = 4
   \<and> playhead_frame
        (playbackStep (setPlayheadFrame (TimelineView_init 150 30 20 2 10) (27 / 10)))
       \<noteq> 27 / 10 + 1
   \<and> playhead_frame (setPlayheadFrame (TimelineView_init 150 30 20 2 10) (493 / 5)) = 493 / 5
   \<and> end_frame (setPlayheadFrame (TimelineView_init 150 30 20 2 10) (493 / 5)) = 100
   \<and> playhead_frame
        (playbackStep (setPlayheadFrame (TimelineView_init 150 30 20 2 10) (493 / 5))) = 100"
  by (simp add: playbackStep_def updateFromPlayhead_def setPlayheadFrame_def updateTime_def
      TimelineView_init_def updateLayout_def minimum_end_frame_def py_round_def Let_def)

text \<open>
  C6, amended. A playback tick adds 1 to the playhead frame, replaces the sum by 0 when
  it has reached the end frame, and stores the result rounded to an integer; so it takes
  an integer playhead frame \<open>p\<close> to exactly \<open>p + 1\<close>, or to 0 when \<open>p + 1\<close> reaches the end
  frame. From playhead frame 0, with the end frame at 100 before and after each of the
  ticks, the playhead frame after \<open>k < 100\<close> ticks is \<open>k\<close> (so none of the first 99 ticks
  wraps) and after 100 ticks it is 0 again.
\<close>

theorem playback_wraps_at_end:
  "playhead_frame (playbackStep v) =
     real_of_int (py_round (if playhead_frame v + 1 \<ge> end_frame v then 0
                            else playhead_frame v + 1))
   \<and> (playhead_frame v \<in> \<int> \<longrightarrow>
      playhead_frame (playbackStep v) =
        (if playhead_frame v + 1 \<ge> end_frame v then 0 else playhead_frame v + 1))
   \<and> (playhead_frame v = 0 \<longrightarrow>
       (\<forall>k\<le>100. end_frame ((playbackStep ^^ k) v) = 100) \<longrightarrow>
         (\<forall>k<100. playhead_frame ((playbackStep ^^ k) v) = real k)
         \<and> playhead_frame ((playbackStep ^^ 100) v) = 0)"
proof (intro conjI impI allI)
  show "playhead_frame (playbackStep v) =
     real_of_int (py_round (if playhead_frame v + 1 \<ge> end_frame v then 0
                            else playhead_frame v + 1))"
    by (rule playhead_frame_playbackStep)
next
  assume "playhead_frame v \<in> \<int>"
  then show "playhead_frame (playbackStep v) =
        (if playhead_frame v + 1 \<ge> end_frame v then 0 else playhead_frame v + 1)"
    by (rule playbackStep_integer_playhead)
next
  fix k :: nat
  assume p: "playhead_frame v = 0"
    and e: "\<forall>k\<le>100. end_frame ((playbackStep ^^ k) v) = 100"
    and k: "k < 100"
  show "playhead_frame ((playbackStep ^^ k) v) = real k"
    using playback_counts [OF p e k] .
next
  assume p: "playhead_frame v = 0"
    and e: "\<forall>k\<le>100. end_frame ((playbackStep ^^ k) v) = 100"
  have a: "playhead_frame ((playbackStep ^^ 99) v) = 99"
    using playback_counts [OF p e, of 99] by simp
  have b: "end_frame ((playbackStep ^^ 99) v) = 100" using e by simp
  have "playhead_frame ((playbackStep ^^ 99) v) \<in> \<int>" using a by simp
  from playbackStep_integer_playhead [OF this]
  have "playhead_frame (playbackStep ((playbackStep ^^ 99) v)) = 0"
    using a b by simp
  moreover have "(playbackStep ^^ 100) v = playbackStep ((playbackStep ^^ 99) v)"
  proof -
    have "(100::nat) = Suc 99" by simp
    then show ?thesis by (simp only: funpow.simps o_apply)
  qed
  ultimately show "playhead_frame ((playbackStep ^^ 100) v) = 0" by simp
qed

theorem playback_wraps_at_end_witness:
  "playhead_frame (TimelineView_init 150 30 20 2 10) = 0
   \<and> playhead_frame (TimelineView_init 150 30 20 2 10) \<in> \<int>
   \<and> end_frame (TimelineView_init 150 30 20 2 10) = 100
   \<and> playhead_frame (playbackStep (TimelineView_init 150 30 20 2 10)) = 1
   \<and> playhead_frame ((playbackStep ^^ 99) (TimelineView_init 150 30 20 2 10)) = 99
   \<and> playhead_frame ((playbackStep ^^ 100) (TimelineView_init 150 30 20 2 10)) = 0"
proof -
  let ?v = "TimelineView_init 150 30 20 2 10"
  have p: "playhead_frame ?v = 0" and e0: "end_frame ?v = 100"
    and m: "minimum_end_frame ?v \<le> 76"
    by (simp_all add: init_default)
  have i: "playhead_frame ?v \<in> \<int>" using p by simp
  have e: "\<forall>k\<le>100. end_frame ((playbackStep ^^ k) ?v) = 100"
    using playback_end_stays [OF m e0] by simp
  note t = playback_wraps_at_end [of ?v]
  have one: "playhead_frame (playbackStep ?v) = 1"
    using t i p e0 by simp
  have "(99::nat) < 100" by simp
  then have n: "playhead_frame ((playbackStep ^^ 99) ?v) = 99"
    using t p e by fastforce
  have z: "playhead_frame ((playbackStep ^^ 100) ?v) = 0"
    using t p e by blast
  show ?thesis using p i e0 one n z by blast
qed

section \<open>Frames to pixels and back\<close>

text \<open>
  C7. For every frame \<open>f \<ge> 0\<close> and zoom \<open>z > 0\<close>, turning the frame into a pixel position
  and the position back into a frame gives \<open>f\<close> again, in exact arithmetic. The pixels
  per frame of the theme must not be zero (it is 10 unless the theme overrides it), or
  the division raises.
\<close>

theorem xToFrame_frameToX:
  "0 \<le> f \<Longrightarrow> 0 < z \<Longrightarrow> base \<noteq> 0 \<Longrightarrow>
     xToFrame left_margin base (frameToX left_margin base f z) z = Inr f"
  by (simp add: xToFrame_def frameToX_def py_div_def)

theorem xToFrame_frameToX_witness:
  "(0::real) \<le> 48 \<and> (0::real) < 107 / 200 \<and> (10::real) \<noteq> 0
   \<and> xToFrame 150 10 (frameToX 150 10 48 (107 / 200)) (107 / 200) = Inr 48"
  using xToFrame_frameToX [of 48 "107 / 200" 10 150] by simp

section \<open>Merging a theme\<close>

text \<open>
  C9. \<open>get_theme\<close> of a dict gives every key the value of the dict if the dict has the
  key, else the value of the dark theme if that has it, else the value of the default
  constants. For the dict with the one entry \<open>clip_fill = #FF0000\<close>: \<open>clip_fill\<close> is
  \<open>#FF0000\<close>, every other key of the dark theme has the dark theme's value, and a key
  not in the dark theme has what the default constants give it.
\<close>

theorem get_theme_precedence:
  "(\<exists>m. get_theme (CDict d) = Inr m
        \<and> (\<forall>k. m k = (case d k of Some x \<Rightarrow> Some x
                       | None \<Rightarrow> (case dark_theme k of Some y \<Rightarrow> Some y
                                   | None \<Rightarrow> DEFAULT_CONSTANTS k))))
   \<and> (\<exists>m. get_theme (CDict [''clip_fill'' \<mapsto> Str ''#FF0000'']) = Inr m
        \<and> m ''clip_fill'' = Some (Str ''#FF0000'')
        \<and> (\<forall>k. k \<noteq> ''clip_fill'' \<longrightarrow> k \<in> dom dark_theme \<longrightarrow> m k = dark_theme k)
        \<and> (\<forall>k. k \<notin> dom dark_theme \<longrightarrow> m k = DEFAULT_CONSTANTS k))"
proof (intro conjI)
  show "\<exists>m. get_theme (CDict d) = Inr m
        \<and> (\<forall>k. m k = (case d k of Some x \<Rightarrow> Some x
                       | None \<Rightarrow> (case dark_theme k of Some y \<Rightarrow> Some y
                                   | None \<Rightarrow> DEFAULT_CONSTANTS k)))"
    by (simp add: get_theme_CDict map_add_def split: option.splits)
next
  let ?d = "[''clip_fill'' \<mapsto> Str ''#FF0000'']"
  let ?m = "DEFAULT_CONSTANTS ++ (dark_theme ++ ?d)"
  have a: "?m ''clip_fill'' = Some (Str ''#FF0000'')"
    by (simp add: map_add_def)
  have b: "\<forall>k. k \<noteq> ''clip_fill'' \<longrightarrow> k \<in> dom dark_theme \<longrightarrow> ?m k = dark_theme k"
    by (auto simp: map_add_def domIff split: option.splits)
  have "''clip_fill'' \<in> dom dark_theme"
    by (simp add: dark_theme_def dom_map_of_conv_image_fst)
  then have c: "\<forall>k. k \<notin> dom dark_theme \<longrightarrow> ?m k = DEFAULT_CONSTANTS k"
    by (auto simp: map_add_def domIff split: option.splits)
  show "\<exists>m. get_theme (CDict ?d) = Inr m
        \<and> m ''clip_fill'' = Some (Str ''#FF0000'')
        \<and> (\<forall>k. k \<noteq> ''clip_fill'' \<longrightarrow> k \<in> dom dark_theme \<longrightarrow> m k = dark_theme k)
        \<and> (\<forall>k. k \<notin> dom dark_theme \<longrightarrow> m k = DEFAULT_CONSTANTS k)"
    using a b c by (simp only: get_theme_CDict sum.inject simp_thms ex_simps)
qed

theorem get_theme_precedence_witness:
  "\<exists>m. get_theme (CDict [''clip_fill'' \<mapsto> Str ''#FF0000'']) = Inr m
      \<and> m ''clip_fill'' = Some (Str ''#FF0000'')
      \<and> m ''clip_border'' = Some (Str ''#000000'')
      \<and> m ''LEFT_MARGIN'' = Some (Num 150)"
proof -
  from get_theme_precedence [of Map.empty] obtain m where
    g: "get_theme (CDict [''clip_fill'' \<mapsto> Str ''#FF0000'']) = Inr m"
    and f: "m ''clip_fill'' = Some (Str ''#FF0000'')"
    and p: "\<forall>k. k \<noteq> ''clip_fill'' \<longrightarrow> k \<in> dom dark_theme \<longrightarrow> m k = dark_theme k"
    and q: "\<forall>k. k \<notin> dom dark_theme \<longrightarrow> m k = DEFAULT_CONSTANTS k"
    by blast
  have "''clip_border'' \<noteq> ''clip_fill''" by simp
  moreover have "''clip_border'' \<in> dom dark_theme" using dark_clip_border by blast
  ultimately have b: "m ''clip_border'' = Some (Str ''#000000'')"
    using p dark_clip_border by simp
  have "''LEFT_MARGIN'' \<notin> dom dark_theme" using dark_no_left_margin by blast
  then have l: "m ''LEFT_MARGIN'' = Some (Num 150)"
    using q default_left_margin by simp
  show ?thesis using g f b l by blast
qed

end
